theory Spec2Isabelle
  imports Main "HOL-Library.Sublist"
begin

section \<open>Configuration data\<close>

text \<open>
  The configuration is the dictionary that \<^verbatim>\<open>yaml.safe_load\<close> returns. Every key the
  program reads is read with \<^verbatim>\<open>dict.get(key, default)\<close>, so every field is optional:
  \<open>None\<close> is an absent key. Strings are ASCII character lists.
\<close>

record message_info =
  msg_type :: "string option"
  msg_content :: "string option"
  msg_image_path :: "string option"
  msg_caption :: "string option"
  msg_time :: "string option"

record contact_info =
  contact_name :: "string option"
  contact_phone :: "string option"
  contact_messages :: "message_info list option"

record contacts =
  personal :: "contact_info list option"
  groups :: "contact_info list option"

record settings =
  wait_time :: "int option"
  close_tab :: "bool option"
  image_formats :: "string list option"
  timezone :: "string option"

record config =
  cfg_contacts :: "contacts option"
  cfg_settings :: "settings option"

text \<open>\<^verbatim>\<open>d.get(key, default)\<close> on an optional field.\<close>

definition dict_get :: "'a option \<Rightarrow> 'a \<Rightarrow> 'a" where
  "dict_get v d = (case v of None \<Rightarrow> d | Some x \<Rightarrow> x)"

text \<open>
  The empty dictionary \<^verbatim>\<open>{}\<close>, the only configuration that Python takes as false. The
  program reads no key other than \<^verbatim>\<open>contacts\<close> and \<^verbatim>\<open>settings\<close>, and other keys are
  not represented.
\<close>

definition empty_config :: config where
  "empty_config = \<lparr>cfg_contacts = None, cfg_settings = None\<rparr>"

definition empty_settings :: settings where
  "empty_settings = \<lparr>wait_time = None, close_tab = None, image_formats = None, timezone = None\<rparr>"

definition empty_contacts :: contacts where
  "empty_contacts = \<lparr>personal = None, groups = None\<rparr>"

text \<open>\<^verbatim>\<open>self.config.get('settings', {}).get(key, default)\<close>\<close>

definition setting :: "config \<Rightarrow> (settings \<Rightarrow> 'a option) \<Rightarrow> 'a \<Rightarrow> 'a" where
  "setting cfg field d = dict_get (field (dict_get (cfg_settings cfg) empty_settings)) d"

section \<open>Observable effects\<close>

text \<open>
  The program returns nothing from its send functions: what it does is what it logs, what
  it prints and which operation of the messaging library it calls. Every function below
  returns the list of these events, in the order the code produces them.
\<close>

datatype level = INFO | WARNING | ERROR

datatype transport_call =
    Sendwhatmsg_instantly string string int bool
  | Sendwhats_image string string "string option" int bool
  | Sendwhatmsg_to_group_instantly string string int bool

datatype event = Log level string | Print string | Call transport_call

text \<open>
  The messaging library is a parameter: for each call it either returns (\<open>None\<close>) or
  raises an exception whose text is given (\<open>Some e\<close>).
\<close>

type_synonym transport = "transport_call \<Rightarrow> string option"

fun calls :: "event list \<Rightarrow> transport_call list" where
  "calls [] = []"
| "calls (Call c # es) = c # calls es"
| "calls (_ # es) = calls es"

section \<open>Validators\<close>

text \<open>\<^verbatim>\<open>s.replace(old, new)\<close> for a one-character \<open>old\<close>.\<close>

fun replace :: "char \<Rightarrow> string \<Rightarrow> string \<Rightarrow> string" where
  "replace old new [] = []"
| "replace old new (c # s) = (if c = old then new @ replace old new s else c # replace old new s)"

text \<open>\<^verbatim>\<open>s.startswith(p)\<close> for a one-character \<open>p\<close>.\<close>

definition startswith :: "string \<Rightarrow> char \<Rightarrow> bool" where
  "startswith s p = (case s of [] \<Rightarrow> False | c # _ \<Rightarrow> c = p)"

definition validate_phone_number :: "string \<Rightarrow> string \<times> event list" where
  "validate_phone_number phone0 =
     (let phone = replace CHR '')'' [] (replace CHR ''('' [] (replace CHR ''-'' []
                    (replace CHR '' '' [] phone0)))
      in if \<not> startswith phone CHR ''+''
         then (phone, [Log WARNING (''Phone number '' @ phone @
                 '' doesn't start with country code (+)'')])
         else (phone, []))"

text \<open>
  \<^verbatim>\<open>os.path.splitext(p)[1]\<close> of the standard library (POSIX flavour: the separator is
  \<open>/\<close>). \<open>rfind\<close> is \<^verbatim>\<open>str.rfind\<close>, with \<open>-1\<close> for "not found"; \<open>has_nondot\<close> is
  the loop that skips the leading dots of the file name.
\<close>

fun rfind :: "char \<Rightarrow> string \<Rightarrow> int" where
  "rfind c [] = -1"
| "rfind c (x # xs) =
     (let r = rfind c xs in if r \<ge> 0 then r + 1 else if x = c then 0 else -1)"

function has_nondot :: "string \<Rightarrow> int \<Rightarrow> int \<Rightarrow> bool" where
  "has_nondot p filenameIndex dotIndex =
     (if filenameIndex < dotIndex
      then (if take 1 (drop (nat filenameIndex) p) \<noteq> ''.'' then True
            else has_nondot p (filenameIndex + 1) dotIndex)
      else False)"
  by pat_completeness auto
termination
  by (relation "measure (\<lambda>(p, i, d). nat (d - i))") auto

definition splitext :: "string \<Rightarrow> string \<times> string" where
  "splitext p =
     (let sepIndex = rfind CHR ''/'' p;
          dotIndex = rfind CHR ''.'' p
      in if dotIndex > sepIndex \<and> has_nondot p (sepIndex + 1) dotIndex
         then (take (nat dotIndex) p, drop (nat dotIndex) p)
         else (p, []))"

text \<open>\<^verbatim>\<open>str.lower()\<close> on ASCII text.\<close>

definition lower_char :: "char \<Rightarrow> char" where
  "lower_char c =
     (let n = (of_char c :: nat) in if 65 \<le> n \<and> n \<le> 90 then char_of (n + 32) else c)"

definition lower :: "string \<Rightarrow> string" where
  "lower s = map lower_char s"

text \<open>
  The file system: what a path opens as. \<open>None\<close> is a path that does not exist,
  \<open>Document c\<close> a file that \<^verbatim>\<open>yaml.safe_load\<close> reads as the dictionary \<open>c\<close>, and
  \<open>Malformed e\<close> a file that it rejects with the \<^verbatim>\<open>YAMLError\<close> \<open>e\<close> (any file that is
  not a configuration, such as an image, is written so: only its existence is looked at).
\<close>

datatype file_content = Document config | Malformed string

type_synonym filesystem = "string \<Rightarrow> file_content option"

definition path_exists :: "filesystem \<Rightarrow> string \<Rightarrow> bool" where
  "path_exists fs p = (fs p \<noteq> None)"

definition default_image_formats :: "string list" where
  "default_image_formats = [''.jpg'', ''.jpeg'', ''.png'', ''.gif'']"

definition validate_image_path :: "config \<Rightarrow> filesystem \<Rightarrow> string \<Rightarrow> bool \<times> event list" where
  "validate_image_path cfg fs image_path =
     (if \<not> path_exists fs image_path
      then (False, [Log ERROR (''Image file not found: '' @ image_path)])
      else
        let supported_formats = setting cfg image_formats default_image_formats;
            file_extension = lower (snd (splitext image_path))
        in if file_extension \<notin> set supported_formats
           then (False, [Log ERROR (''Unsupported image format: '' @ file_extension)])
           else (True, []))"

section \<open>Sending\<close>

text \<open>
  Each send function wraps its body in \<^verbatim>\<open>try ... except Exception\<close>: a call of the
  messaging library that raises is logged as an error and nothing propagates.
\<close>

definition send_text_message :: "config \<Rightarrow> transport \<Rightarrow> string \<Rightarrow> string \<Rightarrow> string \<Rightarrow> event list" where
  "send_text_message cfg kit phone0 message name =
     (let (phone, warn) = validate_phone_number phone0;
          wait = setting cfg wait_time 20;
          close = setting cfg close_tab True;
          start = warn @ [Log INFO (''Sending text message to '' @ name @ '' ('' @ phone @ '')'')];
          c = Sendwhatmsg_instantly phone message wait close
      in case kit c of
           None \<Rightarrow> start @ [Call c, Log INFO (''Text message sent successfully to '' @ name)]
         | Some e \<Rightarrow> start @ [Call c,
             Log ERROR (''Failed to send text message to '' @ name @ '': '' @ e)])"

definition send_image_message ::
  "config \<Rightarrow> transport \<Rightarrow> filesystem \<Rightarrow> string \<Rightarrow> string \<Rightarrow> string \<Rightarrow> string \<Rightarrow> event list" where
  "send_image_message cfg kit fs phone0 image_path caption name =
     (let (ok, errs) = validate_image_path cfg fs image_path
      in if \<not> ok then errs
         else
           let (phone, warn) = validate_phone_number phone0;
               wait = setting cfg wait_time 20;
               close = setting cfg close_tab True;
               start = warn @ [Log INFO (''Sending image to '' @ name @ '' ('' @ phone @ '')'')]
           in if caption \<noteq> []
              then
                (let c = Sendwhats_image phone image_path (Some caption) wait close
                 in case kit c of
                      None \<Rightarrow> start @ [Call c,
                        Log INFO (''Image with caption sent successfully to '' @ name)]
                    | Some e \<Rightarrow> start @ [Call c,
                        Log ERROR (''Failed to send image to '' @ name @ '': '' @ e)])
              else
                (let c = Sendwhats_image phone image_path None wait close
                 in case kit c of
                      None \<Rightarrow> start @ [Call c, Log INFO (''Image sent successfully to '' @ name)]
                    | Some e \<Rightarrow> start @ [Call c,
                        Log ERROR (''Failed to send image to '' @ name @ '': '' @ e)]))"

definition send_group_message :: "config \<Rightarrow> transport \<Rightarrow> string \<Rightarrow> string \<Rightarrow> event list" where
  "send_group_message cfg kit group_name message =
     (let wait = setting cfg wait_time 20;
          close = setting cfg close_tab True;
          start = [Log INFO (''Sending text message to group: '' @ group_name)];
          c = Sendwhatmsg_to_group_instantly group_name message wait close
      in case kit c of
           None \<Rightarrow> start @ [Call c,
             Log INFO (''Text message sent successfully to group: '' @ group_name)]
         | Some e \<Rightarrow> start @ [Call c,
             Log ERROR (''Failed to send message to group '' @ group_name @ '': '' @ e)])"

section \<open>Dispatch\<close>

definition process_message ::
  "config \<Rightarrow> transport \<Rightarrow> filesystem \<Rightarrow> contact_info \<Rightarrow> message_info \<Rightarrow> bool \<Rightarrow> event list" where
  "process_message cfg kit fs contact message is_group =
     (let message_type = dict_get (msg_type message) ''text''
      in if is_group
         then
           (let contact_identifier = dict_get (contact_name contact) ''Unknown Group''
            in if message_type = ''text''
               then send_group_message cfg kit contact_identifier
                      (dict_get (msg_content message) [])
               else if message_type = ''image''
               then [Log WARNING
                 ''Image sending to groups is limited. Consider sending to individual members.'']
               else [])
         else
           (let phone = dict_get (contact_phone contact) [];
                name = dict_get (contact_name contact) ''Unknown''
            in if message_type = ''text''
               then send_text_message cfg kit phone (dict_get (msg_content message) []) name
               else if message_type = ''image''
               then send_image_message cfg kit fs phone
                      (dict_get (msg_image_path message) [])
                      (dict_get (msg_caption message) []) name
               else []))"

section \<open>Scheduling\<close>

text \<open>
  A job is what \<^verbatim>\<open>schedule.every().day.at(time_str).do(self.process_message, contact,
  message, is_group)\<close> registers: the time string and the three arguments of the call.
\<close>

record job =
  job_time :: string
  job_contact :: contact_info
  job_message :: message_info
  job_is_group :: bool

text \<open>
  Modelled from the spec: the state that the scheduling library keeps for a job in its
  registry \<^verbatim>\<open>schedule.jobs\<close> is the per-day fired flag, here the date for which the flag
  is set (\<open>None\<close> for a job that has never fired). Dates are day numbers, so the flag
  is not set on a new date until the job fires there. An entry of the registry is the job
  with this state.
\<close>

record entry =
  entry_job :: job
  fired_on :: "nat option"

datatype error = ScheduleValueError string

text \<open>
  The scheduling library is not part of the repository. Its check of the time string,
  which makes \<^verbatim>\<open>at\<close> raise \<^verbatim>\<open>ScheduleValueError\<close>, is the parameter \<open>at_accepts\<close>.
\<close>

definition every_day_at_do ::
  "(string \<Rightarrow> bool) \<Rightarrow> string \<Rightarrow> contact_info \<Rightarrow> message_info \<Rightarrow> bool \<Rightarrow> entry list
     \<Rightarrow> error + entry list" where
  "every_day_at_do at_accepts time_str contact message is_group registry =
     (if at_accepts time_str
      then Inr (registry @ [\<lparr>entry_job = \<lparr>job_time = time_str, job_contact = contact,
              job_message = message, job_is_group = is_group\<rparr>, fired_on = None\<rparr>])
      else Inl (ScheduleValueError time_str))"

text \<open>
  The inner loop over the messages of one target. The state is the registry and the log;
  an exception of \<^verbatim>\<open>at\<close> is not caught and ends the loop.
\<close>

fun schedule_entries ::
  "(string \<Rightarrow> bool) \<Rightarrow> contact_info \<Rightarrow> bool \<Rightarrow> message_info list \<Rightarrow> entry list \<times> event list
     \<Rightarrow> error + entry list \<times> event list" where
  "schedule_entries at_accepts contact is_group [] st = Inr st"
| "schedule_entries at_accepts contact is_group (message # messages) st =
     (let time_str = dict_get (msg_time message) []
      in if time_str \<noteq> []
         then (case every_day_at_do at_accepts time_str contact message is_group (fst st) of
                 Inl e \<Rightarrow> Inl e
               | Inr registry \<Rightarrow>
                   schedule_entries at_accepts contact is_group messages
                     (registry, snd st @ [Log INFO
                        ((if is_group then ''Scheduled message for group ''
                          else ''Scheduled message for '') @
                         dict_get (contact_name contact) ''Unknown'' @ '' at '' @ time_str)]))
         else schedule_entries at_accepts contact is_group messages st)"

text \<open>The outer loop over the targets of one kind.\<close>

fun schedule_targets ::
  "(string \<Rightarrow> bool) \<Rightarrow> bool \<Rightarrow> contact_info list \<Rightarrow> entry list \<times> event list
     \<Rightarrow> error + entry list \<times> event list" where
  "schedule_targets at_accepts is_group [] st = Inr st"
| "schedule_targets at_accepts is_group (contact # rest) st =
     (case schedule_entries at_accepts contact is_group
             (dict_get (contact_messages contact) []) st of
        Inl e \<Rightarrow> Inl e
      | Inr st' \<Rightarrow> schedule_targets at_accepts is_group rest st')"

definition schedule_messages ::
  "(string \<Rightarrow> bool) \<Rightarrow> config \<Rightarrow> entry list \<times> event list \<Rightarrow> error + entry list \<times> event list" where
  "schedule_messages at_accepts cfg st =
     (if cfg = empty_config
      then Inr (fst st,
             snd st @ [Log ERROR ''No configuration loaded. Cannot schedule messages.''])
      else
        let cs = dict_get (cfg_contacts cfg) empty_contacts
        in case schedule_targets at_accepts False (dict_get (personal cs) []) st of
             Inl e \<Rightarrow> Inl e
           | Inr st' \<Rightarrow> schedule_targets at_accepts True (dict_get (groups cs) []) st')"

subsection \<open>The tick of the scheduler\<close>

text \<open>
  Modelled from the spec: the reading of the clock that \<open>tick\<close> takes, a date (a day
  number) and the wall-clock time of the day.
\<close>

record timestamp =
  ts_date :: nat
  ts_hour :: nat
  ts_minute :: nat
  ts_second :: nat

text \<open>Modelled from the spec: a number of hours or of minutes in two decimal digits.\<close>

definition two_digits :: "nat \<Rightarrow> string" where
  "two_digits n = [char_of (48 + n div 10 mod 10), char_of (48 + n mod 10)]"

text \<open>
  Modelled from the spec: the wall-clock time of a timestamp at minute resolution, in the
  \<open>HH:MM\<close> form of a job's time of day.
\<close>

definition hhmm :: "timestamp \<Rightarrow> string" where
  "hhmm now = two_digits (ts_hour now) @ '':'' @ two_digits (ts_minute now)"

text \<open>
  Modelled from the spec: \<^verbatim>\<open>schedule.run_pending\<close>, the scheduling library's decision of
  which jobs are due, is not in the repository. The spec's \<open>tick\<close> returns every job whose
  time of day equals the minute-resolution wall-clock time of \<open>now\<close> and whose per-day
  fired flag is not yet set for the current date, and marks each returned job fired for
  that date in the same call.
\<close>

definition is_due :: "timestamp \<Rightarrow> entry \<Rightarrow> bool" where
  "is_due now e = (job_time (entry_job e) = hhmm now \<and> fired_on e \<noteq> Some (ts_date now))"

text \<open>
  Modelled from the spec: \<open>tick\<close> marks each job it returns as fired for the current
  date.
\<close>

definition mark_fired :: "timestamp \<Rightarrow> entry \<Rightarrow> entry" where
  "mark_fired now e = (if is_due now e then e\<lparr>fired_on := Some (ts_date now)\<rparr> else e)"

text \<open>
  Modelled from the spec: \<open>tick(now, jobs)\<close>, the due jobs in the order of the registry
  and the registry with their flags set.
\<close>

definition tick :: "timestamp \<Rightarrow> entry list \<Rightarrow> job list \<times> entry list" where
  "tick now registry = (map entry_job (filter (is_due now) registry), map (mark_fired now) registry)"

subsection \<open>The loop\<close>

text \<open>A due job runs \<^verbatim>\<open>self.process_message(contact, message, is_group)\<close>.\<close>

definition run_job :: "config \<Rightarrow> transport \<Rightarrow> filesystem \<Rightarrow> job \<Rightarrow> event list" where
  "run_job cfg kit fs j = process_message cfg kit fs (job_contact j) (job_message j) (job_is_group j)"

text \<open>
  \<^verbatim>\<open>while True: schedule.run_pending(); time.sleep(60)\<close>, until the user interrupts.
  The clock is the list of the times at which the loop wakes before the interrupt; the
  loop ends, with the interrupt, when the list does.
\<close>

fun scheduler_loop ::
  "config \<Rightarrow> transport \<Rightarrow> filesystem \<Rightarrow> timestamp list \<Rightarrow> entry list \<Rightarrow> entry list \<times> event list" where
  "scheduler_loop cfg kit fs [] registry =
     (registry, [Log INFO ''WhatsApp Bot stopped by user'',
                 Print (CHR 0x0A # ''WhatsApp Bot stopped.'')])"
| "scheduler_loop cfg kit fs (now # clock) registry =
     (let (due, registry') = tick now registry;
          evs = concat (map (run_job cfg kit fs) due);
          (registry'', evs') = scheduler_loop cfg kit fs clock registry'
      in (registry'', evs @ evs'))"

definition run_scheduler ::
  "(string \<Rightarrow> bool) \<Rightarrow> config \<Rightarrow> transport \<Rightarrow> filesystem \<Rightarrow> timestamp list \<Rightarrow> entry list
     \<Rightarrow> error + entry list \<times> event list" where
  "run_scheduler at_accepts cfg kit fs clock registry =
     (let started = [Log INFO ''WhatsApp Bot scheduler started'']
      in if cfg = empty_config
         then Inr (registry, started @ [Log ERROR ''No configuration found. Exiting.''])
         else case schedule_messages at_accepts cfg (registry, started) of
                Inl e \<Rightarrow> Inl e
              | Inr (registry', evs) \<Rightarrow>
                  let (registry'', evs') = scheduler_loop cfg kit fs clock registry'
                  in Inr (registry'',
                       evs @ [Log INFO ''All messages scheduled successfully'',
                              Print ''WhatsApp Bot is running... Press Ctrl+C to stop''] @ evs'))"

section \<open>Loading the configuration\<close>

definition sample_config :: config where
  "sample_config =
     \<lparr>cfg_contacts = Some
        \<lparr>personal = Some
           [\<lparr>contact_name = Some ''John Doe'', contact_phone = Some ''+1234567890'',
             contact_messages = Some
               [\<lparr>msg_type = Some ''text'', msg_content = Some ''Good morning! Have a great day!'',
                 msg_image_path = None, msg_caption = None, msg_time = Some ''09:00''\<rparr>]\<rparr>],
         groups = Some
           [\<lparr>contact_name = Some ''Family Group'', contact_phone = None,
             contact_messages = Some
               [\<lparr>msg_type = Some ''text'', msg_content = Some ''Good morning everyone!'',
                 msg_image_path = None, msg_caption = None, msg_time = Some ''08:30''\<rparr>,
                \<lparr>msg_type = Some ''image'', msg_content = None,
                 msg_image_path = Some ''images/motivational_quote.jpg'',
                 msg_caption = Some ''Daily motivation!'', msg_time = Some ''18:00''\<rparr>]\<rparr>]\<rparr>,
      cfg_settings = Some
        \<lparr>wait_time = Some 20, close_tab = Some True,
         image_formats = Some [''.jpg'', ''.jpeg'', ''.png'', ''.gif''],
         timezone = Some ''local''\<rparr>\<rparr>"

definition create_sample_config :: "filesystem \<Rightarrow> string \<Rightarrow> filesystem \<times> event list" where
  "create_sample_config fs config_file =
     (fs(config_file \<mapsto> Document sample_config),
      [Log INFO (''Sample configuration created at '' @ config_file),
       Print (''Please edit '' @ config_file @ '' with your contacts and messages'')])"

definition load_config :: "filesystem \<Rightarrow> string \<Rightarrow> config \<times> filesystem \<times> event list" where
  "load_config fs config_file =
     (case fs config_file of
        Some (Document c) \<Rightarrow>
          (c, fs, [Log INFO (''Configuration loaded from '' @ config_file)])
      | None \<Rightarrow>
          (let (fs', evs) = create_sample_config fs config_file
           in (empty_config, fs',
               Log ERROR (''Configuration file '' @ config_file @ '' not found'') # evs))
      | Some (Malformed e) \<Rightarrow>
          (empty_config, fs, [Log ERROR (''Error parsing YAML configuration: '' @ e)]))"

text \<open>\<^verbatim>\<open>WhatsAppBot(config_file)\<close>: the constructor loads the configuration.\<close>

definition bot_init :: "filesystem \<Rightarrow> string \<Rightarrow> config \<times> filesystem \<times> event list" where
  "bot_init fs config_file =
     (let (cfg, fs', evs) = load_config fs config_file
      in (cfg, fs', evs @ [Log INFO ''WhatsApp Bot initialized successfully'']))"

text \<open>
  A run of the program: \<^verbatim>\<open>main()\<close> with no argument or with \<^verbatim>\<open>run\<close> builds the bot from
  \<^verbatim>\<open>config.yaml\<close> and runs the scheduler on the registry, empty when the process starts.
  The result is the configuration in memory, the file system, the registry and the events.
\<close>

definition main_run ::
  "(string \<Rightarrow> bool) \<Rightarrow> transport \<Rightarrow> timestamp list \<Rightarrow> filesystem
     \<Rightarrow> error + config \<times> filesystem \<times> entry list \<times> event list" where
  "main_run at_accepts kit clock fs =
     (let (cfg, fs', evs) = bot_init fs ''config.yaml''
      in case run_scheduler at_accepts cfg kit fs' clock [] of
           Inl e \<Rightarrow> Inl e
         | Inr (registry, evs') \<Rightarrow> Inr (cfg, fs', registry, evs @ evs'))"

section \<open>Reading the events\<close>

text \<open>What a run reports as failed (\<^verbatim>\<open>logger.error\<close>) and as a warning (\<^verbatim>\<open>logger.warning\<close>).\<close>

fun errors :: "event list \<Rightarrow> string list" where
  "errors [] = []"
| "errors (Log ERROR s # es) = s # errors es"
| "errors (_ # es) = errors es"

fun warnings :: "event list \<Rightarrow> string list" where
  "warnings [] = []"
| "warnings (Log WARNING s # es) = s # warnings es"
| "warnings (_ # es) = warnings es"

section \<open>The configuration as a list of message entries\<close>

text \<open>
  The terms in which the properties of scheduling are stated: the targets of a
  configuration, the message entries of a target, the entry that has a time, and the
  registry entry that one message entry gives.
\<close>

definition personal_targets :: "config \<Rightarrow> contact_info list" where
  "personal_targets cfg = dict_get (personal (dict_get (cfg_contacts cfg) empty_contacts)) []"

definition group_targets :: "config \<Rightarrow> contact_info list" where
  "group_targets cfg = dict_get (groups (dict_get (cfg_contacts cfg) empty_contacts)) []"

definition message_entries :: "contact_info \<Rightarrow> message_info list" where
  "message_entries c = dict_get (contact_messages c) []"

definition message_count :: "config \<Rightarrow> nat" where
  "message_count cfg =
     sum_list (map (\<lambda>c. length (message_entries c)) (personal_targets cfg @ group_targets cfg))"

definition time_of :: "message_info \<Rightarrow> string" where
  "time_of m = dict_get (msg_time m) []"

definition has_time :: "message_info \<Rightarrow> bool" where
  "has_time m = (time_of m \<noteq> [])"

definition job_of :: "bool \<Rightarrow> contact_info \<Rightarrow> message_info \<Rightarrow> entry" where
  "job_of is_group c m =
     \<lparr>entry_job = \<lparr>job_time = time_of m, job_contact = c, job_message = m,
                   job_is_group = is_group\<rparr>,
      fired_on = None\<rparr>"

definition jobs_of :: "bool \<Rightarrow> contact_info list \<Rightarrow> entry list" where
  "jobs_of is_group cs = concat (map (\<lambda>c. map (job_of is_group c) (message_entries c)) cs)"

definition timed_jobs_of :: "bool \<Rightarrow> contact_info list \<Rightarrow> entry list" where
  "timed_jobs_of is_group cs =
     concat (map (\<lambda>c. map (job_of is_group c) (filter has_time (message_entries c))) cs)"

text \<open>
  A valid configuration: every message entry has a time, and the scheduling library
  accepts it.
\<close>

definition valid_config :: "(string \<Rightarrow> bool) \<Rightarrow> config \<Rightarrow> bool" where
  "valid_config at_accepts cfg =
     (\<forall>c \<in> set (personal_targets cfg @ group_targets cfg).
        \<forall>m \<in> set (message_entries c). has_time m \<and> at_accepts (time_of m))"

text \<open>
  A configuration in which the scheduling library accepts every time that is given;
  entries without a time are allowed.
\<close>

definition times_accepted :: "(string \<Rightarrow> bool) \<Rightarrow> config \<Rightarrow> bool" where
  "times_accepted at_accepts cfg =
     (\<forall>c \<in> set (personal_targets cfg @ group_targets cfg).
        \<forall>m \<in> set (message_entries c). has_time m \<longrightarrow> at_accepts (time_of m))"

text \<open>The registry after a run of ticks, as the loop of the scheduler leaves it.\<close>

fun run_ticks :: "timestamp list \<Rightarrow> entry list \<Rightarrow> entry list" where
  "run_ticks [] registry = registry"
| "run_ticks (now # clock) registry = run_ticks clock (snd (tick now registry))"

text \<open>Two timestamps in the same minute of the day, whatever their dates and seconds.\<close>

definition same_minute :: "timestamp \<Rightarrow> timestamp \<Rightarrow> bool" where
  "same_minute a b = (hhmm a = hhmm b)"

section \<open>Concrete inputs\<close>

text \<open>A messaging library that always succeeds, and a file system with no file.\<close>

definition kit_ok :: transport where
  "kit_ok c = None"

definition no_files :: filesystem where
  "no_files p = None"

text \<open>The 24-hour \<open>HH:MM\<close> format, as an instance of the scheduling library's check.\<close>

definition is_digit :: "char \<Rightarrow> bool" where
  "is_digit c = (let n = (of_char c :: nat) in 48 \<le> n \<and> n \<le> 57)"

definition digit_val :: "char \<Rightarrow> nat" where
  "digit_val c = of_char c - 48"

definition hhmm_format :: "string \<Rightarrow> bool" where
  "hhmm_format t =
     (case t of
        [a, b, c, d, e] \<Rightarrow>
          is_digit a \<and> is_digit b \<and> c = CHR '':'' \<and> is_digit d \<and> is_digit e \<and>
          10 * digit_val a + digit_val b < 24 \<and> 10 * digit_val d + digit_val e < 60
      | _ \<Rightarrow> False)"

definition text_message :: "string \<Rightarrow> string \<Rightarrow> message_info" where
  "text_message content t =
     \<lparr>msg_type = Some ''text'', msg_content = Some content, msg_image_path = None,
      msg_caption = None, msg_time = Some t\<rparr>"

definition image_message :: "string \<Rightarrow> string \<Rightarrow> string \<Rightarrow> message_info" where
  "image_message path caption t =
     \<lparr>msg_type = Some ''image'', msg_content = None, msg_image_path = Some path,
      msg_caption = Some caption, msg_time = Some t\<rparr>"

definition video_message :: message_info where
  "video_message =
     \<lparr>msg_type = Some ''video'', msg_content = Some ''clip'', msg_image_path = None,
      msg_caption = None, msg_time = Some ''09:00''\<rparr>"

definition ann :: contact_info where
  "ann = \<lparr>contact_name = Some ''Ann'', contact_phone = Some ''+15551230000'',
          contact_messages = Some [text_message ''Hi'' ''09:00'']\<rparr>"

definition family :: contact_info where
  "family = \<lparr>contact_name = Some ''Family Group'', contact_phone = None,
             contact_messages = Some [image_message ''pic.png'' ''Look'' ''18:00'']\<rparr>"

text \<open>A contact whose phone is made of separators only.\<close>

definition blank_phone :: contact_info where
  "blank_phone = \<lparr>contact_name = Some ''Bob'', contact_phone = Some ''( ) -'',
                  contact_messages = Some [text_message ''Hi'' ''09:00'']\<rparr>"

text \<open>A configuration that lists the image format in upper case, and a file of that format.\<close>

definition upper_case_formats :: config where
  "upper_case_formats =
     \<lparr>cfg_contacts = None,
      cfg_settings = Some \<lparr>wait_time = None, close_tab = None,
                           image_formats = Some [''.JPG''], timezone = None\<rparr>\<rparr>"

definition photo_files :: filesystem where
  "photo_files p = (if p = ''photo.JPG'' \<or> p = ''pic.png'' then Some (Malformed []) else None)"

text \<open>A configuration with one entry that has no time between two that have one.\<close>

definition untimed_message :: message_info where
  "untimed_message =
     \<lparr>msg_type = Some ''text'', msg_content = Some ''Lunch?'', msg_image_path = None,
      msg_caption = None, msg_time = None\<rparr>"

definition partly_timed :: config where
  "partly_timed =
     \<lparr>cfg_contacts = Some
        \<lparr>personal = Some
           [\<lparr>contact_name = Some ''Ann'', contact_phone = Some ''+15551230000'',
             contact_messages = Some
               [text_message ''Hi'' ''09:00'', untimed_message, text_message ''Bye'' ''17:30'']\<rparr>],
         groups = None\<rparr>,
      cfg_settings = None\<rparr>"

definition at_nine :: "nat \<Rightarrow> nat \<Rightarrow> timestamp" where
  "at_nine day s = \<lparr>ts_date = day, ts_hour = 9, ts_minute = 0, ts_second = s\<rparr>"

definition at_noon :: "nat \<Rightarrow> timestamp" where
  "at_noon day = \<lparr>ts_date = day, ts_hour = 12, ts_minute = 0, ts_second = 0\<rparr>"

definition ann_registry :: "entry list" where
  "ann_registry = [job_of False ann (text_message ''Hi'' ''09:00'')]"

section \<open>Properties of the phone normalisation\<close>

lemma replace_empty_filter: "replace old [] s = filter (\<lambda>c. c \<noteq> old) s"
  by (induction s) auto

lemma validate_phone_number_filter:
  "fst (validate_phone_number p) = filter (\<lambda>c. c \<notin> {CHR '' '', CHR ''-'', CHR ''('', CHR '')''}) p"
  by (auto simp: validate_phone_number_def Let_def replace_empty_filter intro: filter_cong)

text \<open>
  Claim C6. For every input string, the phone normalisation removes exactly the space,
  the hyphen and the two parentheses, and keeps every other character (digits and a
  leading \<open>+\<close> among them) in the original order: the result is the input filtered by
  "is none of these four characters". Both branches of the check for the country code
  return the same string, so nothing else is reformatted.
\<close>

theorem normalize_phone_removes_exactly:
  "fst (validate_phone_number p) =
     filter (\<lambda>c. c \<notin> {CHR '' '', CHR ''-'', CHR ''('', CHR '')''}) p"
  by (rule validate_phone_number_filter)

text \<open>
  Claim C9, as stated, fails: a phone that is present but made of separators only is
  normalised to the empty string, and the message is still handed to the messaging
  library, with the empty phone.
\<close>

theorem blank_phone_dispatched:
  "fst (validate_phone_number ''( ) -'') = [] \<and>
   calls (process_message empty_config kit_ok no_files blank_phone
            (text_message ''Hi'' ''09:00'') False)
     = [Sendwhatmsg_instantly [] ''Hi'' 20 True]"
  by code_simp

text \<open>
  Claim C9, amended. The phone is non-empty after normalisation exactly when it holds at
  least one character other than the space, the hyphen and the parentheses.
\<close>

theorem normalize_phone_nonempty_iff:
  "fst (validate_phone_number p) \<noteq> [] \<longleftrightarrow>
     (\<exists>c \<in> set p. c \<notin> {CHR '' '', CHR ''-'', CHR ''('', CHR '')''})"
  unfolding validate_phone_number_filter by (simp add: filter_empty_conv)

theorem normalize_phone_nonempty_iff_witness:
  "fst (validate_phone_number ''+1 (555) 123-0000'') \<noteq> []"
  using normalize_phone_nonempty_iff [of "''+1 (555) 123-0000''"] by simp

section \<open>Properties of the image check\<close>

lemma validate_image_path_iff:
  "fst (validate_image_path cfg fs p) \<longleftrightarrow>
     path_exists fs p \<and>
     lower (snd (splitext p)) \<in> set (setting cfg image_formats default_image_formats)"
  by (simp add: validate_image_path_def Let_def)

lemma validate_image_path_events:
  "validate_image_path cfg fs p = (ok, evs) \<Longrightarrow> \<not> ok \<Longrightarrow> \<exists>s. evs = [Log ERROR s]"
  by (auto simp: validate_image_path_def Let_def split: if_splits)

text \<open>
  Claim C5. The code lower-cases the extension of the path and looks it up in the
  configured list as it is written, so the comparison is case-insensitive on the side of
  the path only. With the format listed as \<open>.JPG\<close>, the existing file \<open>photo.JPG\<close>,
  whose extension is in the list letter for letter, is rejected.
\<close>

theorem upper_case_format_rejected:
  "path_exists photo_files ''photo.JPG'' \<and>
   snd (splitext ''photo.JPG'') \<in>
     set (setting upper_case_formats image_formats default_image_formats) \<and>
   validate_image_path upper_case_formats photo_files ''photo.JPG'' =
     (False, [Log ERROR ''Unsupported image format: .jpg''])"
  by code_simp

section \<open>Properties of the dispatcher\<close>

lemma calls_append: "calls (xs @ ys) = calls xs @ calls ys"
  by (induction xs rule: calls.induct) auto

lemma calls_validate_phone: "calls (snd (validate_phone_number p)) = []"
  by (simp add: validate_phone_number_def Let_def)

lemma send_image_message_rejected:
  "\<not> fst (validate_image_path cfg fs path) \<Longrightarrow>
   send_image_message cfg kit fs phone path caption name = snd (validate_image_path cfg fs path)"
  by (cases "validate_image_path cfg fs path") (simp add: send_image_message_def)

lemma send_image_message_calls:
  "fst (validate_image_path cfg fs path) \<Longrightarrow>
   calls (send_image_message cfg kit fs phone path caption name) =
     [Sendwhats_image (fst (validate_phone_number phone)) path
        (if caption \<noteq> [] then Some caption else None)
        (setting cfg wait_time 20) (setting cfg close_tab True)]"
  using calls_validate_phone [of phone]
  by (cases "validate_image_path cfg fs path"; cases "validate_phone_number phone")
     (auto simp: send_image_message_def Let_def calls_append split: option.splits)

lemma process_message_individual_image:
  "msg_type m = Some ''image'' \<Longrightarrow>
   process_message cfg kit fs c m False =
     send_image_message cfg kit fs (dict_get (contact_phone c) [])
       (dict_get (msg_image_path m) []) (dict_get (msg_caption m) [])
       (dict_get (contact_name c) ''Unknown'')"
  by (simp add: process_message_def dict_get_def)

text \<open>
  Claim C2. For every group target and every message of type \<open>image\<close>, whatever the
  configuration, the messaging library and the file system, the dispatcher does one
  thing: it logs the warning that image sending to groups is limited. It makes no call of
  the messaging library and reports no error. The code has no outcome value; the skipped
  outcome of the claim is this warning.
\<close>

theorem group_image_skipped:
  assumes "msg_type m = Some ''image''"
  shows "process_message cfg kit fs c m True =
           [Log WARNING
              ''Image sending to groups is limited. Consider sending to individual members.''] \<and>
         calls (process_message cfg kit fs c m True) = [] \<and>
         errors (process_message cfg kit fs c m True) = []"
  using assms by (simp add: process_message_def dict_get_def)

theorem group_image_skipped_witness:
  "msg_type (image_message ''pic.png'' ''Look'' ''18:00'') = Some ''image'' \<and>
   warnings (process_message sample_config kit_ok photo_files family
               (image_message ''pic.png'' ''Look'' ''18:00'') True)
     = [''Image sending to groups is limited. Consider sending to individual members.''] \<and>
   calls (process_message sample_config kit_ok photo_files family
            (image_message ''pic.png'' ''Look'' ''18:00'') True) = []"
proof -
  have h: "msg_type (image_message ''pic.png'' ''Look'' ''18:00'') = Some ''image''"
    by (simp add: image_message_def)
  show ?thesis
    using h group_image_skipped [OF h, of sample_config kit_ok photo_files family] by simp
qed

text \<open>
  Claim C3. For every individual target and every message of type \<open>image\<close>: if the
  image check returns false, the dispatcher makes no call of the messaging library and
  its only event is one error in the log (the failed outcome of the claim); if the check
  returns true, it makes exactly one call, \<^verbatim>\<open>sendwhats_image\<close>, to the normalised phone,
  with the caption when the caption is non-empty and without a caption otherwise.
\<close>

theorem individual_image_dispatch:
  assumes "msg_type m = Some ''image''"
  shows "(\<not> fst (validate_image_path cfg fs (dict_get (msg_image_path m) [])) \<longrightarrow>
            calls (process_message cfg kit fs c m False) = [] \<and>
            (\<exists>s. process_message cfg kit fs c m False = [Log ERROR s])) \<and>
         (fst (validate_image_path cfg fs (dict_get (msg_image_path m) [])) \<longrightarrow>
            calls (process_message cfg kit fs c m False) =
              [Sendwhats_image (fst (validate_phone_number (dict_get (contact_phone c) [])))
                 (dict_get (msg_image_path m) [])
                 (if dict_get (msg_caption m) [] \<noteq> []
                  then Some (dict_get (msg_caption m) []) else None)
                 (setting cfg wait_time 20) (setting cfg close_tab True)])"
proof (intro conjI impI)
  assume bad: "\<not> fst (validate_image_path cfg fs (dict_get (msg_image_path m) []))"
  obtain ok evs where v: "validate_image_path cfg fs (dict_get (msg_image_path m) []) = (ok, evs)"
    by (cases "validate_image_path cfg fs (dict_get (msg_image_path m) [])")
  with bad have "\<not> ok" by simp
  with v obtain s where s: "evs = [Log ERROR s]"
    using validate_image_path_events by blast
  have eq: "process_message cfg kit fs c m False = evs"
    using assms bad v by (simp add: process_message_individual_image send_image_message_rejected)
  show "calls (process_message cfg kit fs c m False) = []"
    by (simp add: eq s)
  show "\<exists>s. process_message cfg kit fs c m False = [Log ERROR s]"
    using eq s by blast
next
  assume "fst (validate_image_path cfg fs (dict_get (msg_image_path m) []))"
  then show "calls (process_message cfg kit fs c m False) =
              [Sendwhats_image (fst (validate_phone_number (dict_get (contact_phone c) [])))
                 (dict_get (msg_image_path m) [])
                 (if dict_get (msg_caption m) [] \<noteq> []
                  then Some (dict_get (msg_caption m) []) else None)
                 (setting cfg wait_time 20) (setting cfg close_tab True)]"
    using assms by (simp add: process_message_individual_image send_image_message_calls)
qed

lemma pic_missing: "\<not> fst (validate_image_path sample_config no_files ''pic.png'')"
  by code_simp

lemma pic_present: "fst (validate_image_path sample_config photo_files ''pic.png'')"
  by code_simp

theorem individual_image_dispatch_witness:
  "msg_type (image_message ''pic.png'' ''Look'' ''18:00'') = Some ''image'' \<and>
   \<not> fst (validate_image_path sample_config no_files ''pic.png'') \<and>
   calls (process_message sample_config kit_ok no_files ann
            (image_message ''pic.png'' ''Look'' ''18:00'') False) = [] \<and>
   fst (validate_image_path sample_config photo_files ''pic.png'') \<and>
   calls (process_message sample_config kit_ok photo_files ann
            (image_message ''pic.png'' ''Look'' ''18:00'') False)
     = [Sendwhats_image ''+15551230000'' ''pic.png'' (Some ''Look'') 20 True] \<and>
   calls (process_message sample_config kit_ok photo_files ann
            (image_message ''pic.png'' [] ''18:00'') False)
     = [Sendwhats_image ''+15551230000'' ''pic.png'' None 20 True]"
proof -
  have h: "msg_type (image_message ''pic.png'' cap ''18:00'') = Some ''image''" for cap
    by (simp add: image_message_def)
  have p: "dict_get (msg_image_path (image_message ''pic.png'' cap ''18:00'')) [] = ''pic.png''" for cap
    by (simp add: image_message_def dict_get_def)
  have c: "dict_get (msg_caption (image_message ''pic.png'' cap ''18:00'')) [] = cap" for cap
    by (simp add: image_message_def dict_get_def)
  have ph: "fst (validate_phone_number (dict_get (contact_phone ann) [])) = ''+15551230000''"
    by (simp add: ann_def dict_get_def validate_phone_number_filter)
  have w: "setting sample_config wait_time 20 = 20" "setting sample_config close_tab True = True"
    by (simp_all add: setting_def sample_config_def dict_get_def)
  note a = individual_image_dispatch [OF h, where cfg = sample_config and fs = no_files
      and c = ann and kit = kit_ok and cap1 = "''Look''"]
  note b = individual_image_dispatch [OF h, where cfg = sample_config and fs = photo_files
      and c = ann and kit = kit_ok and cap1 = "''Look''"]
  note d = individual_image_dispatch [OF h, where cfg = sample_config and fs = photo_files
      and c = ann and kit = kit_ok and cap1 = "[]"]
  show ?thesis
    using a b d pic_missing pic_present by (simp add: h p c ph w)
qed

text \<open>
  Claim C7, amended. For every target, group or individual, and every message whose type
  is neither \<open>text\<close> nor \<open>image\<close>, the dispatcher does nothing at all: no call of
  the messaging library and no entry in the log. The message is ignored without a report.
\<close>

theorem unknown_type_ignored:
  assumes "dict_get (msg_type m) ''text'' \<noteq> ''text''" and "dict_get (msg_type m) ''text'' \<noteq> ''image''"
  shows "process_message cfg kit fs c m is_group = []"
  using assms by (simp add: process_message_def Let_def)

theorem unknown_type_ignored_witness:
  "dict_get (msg_type video_message) ''text'' \<noteq> ''text'' \<and>
   dict_get (msg_type video_message) ''text'' \<noteq> ''image'' \<and>
   process_message sample_config kit_ok no_files ann video_message False = [] \<and>
   process_message sample_config kit_ok no_files family video_message True = []"
proof -
  have a: "dict_get (msg_type video_message) ''text'' \<noteq> ''text''"
    by (simp add: video_message_def dict_get_def)
  have b: "dict_get (msg_type video_message) ''text'' \<noteq> ''image''"
    by (simp add: video_message_def dict_get_def)
  show ?thesis
    using a b unknown_type_ignored [OF a b, of sample_config kit_ok no_files ann False]
      unknown_type_ignored [OF a b, of sample_config kit_ok no_files family True]
    by simp
qed

text \<open>
  Claim C7, as stated, fails: for an individual target and a message of type \<open>video\<close>
  the dispatcher reports no failure; it produces no event of any kind.
\<close>

theorem video_message_not_failed:
  "process_message sample_config kit_ok no_files ann video_message False = [] \<and>
   errors (process_message sample_config kit_ok no_files ann video_message False) = []"
  by code_simp

section \<open>Properties of scheduling\<close>

lemma schedule_entries_Cons_timed:
  "has_time m \<Longrightarrow> at_accepts (time_of m) \<Longrightarrow>
   schedule_entries at_accepts c g (m # ms) (reg, evs) =
     schedule_entries at_accepts c g ms
       (reg @ [job_of g c m],
        evs @ [Log INFO ((if g then ''Scheduled message for group ''
                          else ''Scheduled message for '') @
                         dict_get (contact_name c) ''Unknown'' @ '' at '' @ time_of m)])"
  by (simp add: has_time_def time_of_def every_day_at_do_def job_of_def Let_def)

lemma schedule_entries_Cons_untimed:
  "\<not> has_time m \<Longrightarrow>
   schedule_entries at_accepts c g (m # ms) st = schedule_entries at_accepts c g ms st"
  by (simp add: has_time_def time_of_def)

lemma schedule_entries_timed:
  assumes "\<forall>m \<in> set ms. has_time m \<longrightarrow> at_accepts (time_of m)"
  shows "\<exists>evs'. schedule_entries at_accepts c g ms (reg, evs) =
           Inr (reg @ map (job_of g c) (filter has_time ms), evs')"
  using assms
proof (induction ms arbitrary: reg evs)
  case Nil
  then show ?case by simp
next
  case (Cons m ms)
  from Cons.prems have rest: "\<forall>m \<in> set ms. has_time m \<longrightarrow> at_accepts (time_of m)" by simp
  show ?case
  proof (cases "has_time m")
    case False
    with Cons.IH [OF rest, of reg evs] show ?thesis
      by (simp add: schedule_entries_Cons_untimed del: schedule_entries.simps)
  next
    case True
    with Cons.prems have acc: "at_accepts (time_of m)" by simp
    let ?evs = "evs @ [Log INFO ((if g then ''Scheduled message for group ''
                          else ''Scheduled message for '') @
                         dict_get (contact_name c) ''Unknown'' @ '' at '' @ time_of m)]"
    from Cons.IH [OF rest, of "reg @ [job_of g c m]" ?evs] True
    show ?thesis
      by (simp add: schedule_entries_Cons_timed acc del: schedule_entries.simps)
  qed
qed

lemma schedule_entries_Cons_has_time:
  "has_time m \<Longrightarrow>
   schedule_entries at_accepts c g (m # ms) st =
     (case every_day_at_do at_accepts (time_of m) c m g (fst st) of
        Inl e \<Rightarrow> Inl e
      | Inr registry \<Rightarrow>
          schedule_entries at_accepts c g ms
            (registry,
             snd st @ [Log INFO ((if g then ''Scheduled message for group ''
                                  else ''Scheduled message for '') @
                                 dict_get (contact_name c) ''Unknown'' @ '' at '' @ time_of m)]))"
  unfolding has_time_def time_of_def by (simp add: Let_def)

lemma schedule_entries_filter:
  "schedule_entries at_accepts c g ms st = schedule_entries at_accepts c g (filter has_time ms) st"
proof (induction ms arbitrary: st)
  case Nil
  show ?case by simp
next
  case (Cons m ms)
  show ?case
  proof (cases "has_time m")
    case False
    then show ?thesis
      by (simp add: schedule_entries_Cons_untimed Cons.IH del: schedule_entries.simps)
  next
    case True
    show ?thesis
    proof (cases "every_day_at_do at_accepts (time_of m) c m g (fst st)")
      case (Inl e)
      with True show ?thesis
        by (simp add: schedule_entries_Cons_has_time del: schedule_entries.simps)
    next
      case (Inr registry)
      with True Cons.IH show ?thesis
        by (simp add: schedule_entries_Cons_has_time del: schedule_entries.simps)
    qed
  qed
qed

lemma schedule_targets_timed:
  assumes "\<forall>c \<in> set cs. \<forall>m \<in> set (message_entries c). has_time m \<longrightarrow> at_accepts (time_of m)"
  shows "\<exists>evs'. schedule_targets at_accepts g cs (reg, evs) =
           Inr (reg @ timed_jobs_of g cs, evs')"
  using assms
proof (induction cs arbitrary: reg evs)
  case Nil
  then show ?case by (simp add: timed_jobs_of_def)
next
  case (Cons c cs)
  from Cons.prems have
    "\<forall>m \<in> set (message_entries c). has_time m \<longrightarrow> at_accepts (time_of m)" by simp
  from schedule_entries_timed [OF this, of c g reg evs]
  obtain evs1 where e1: "schedule_entries at_accepts c g (message_entries c) (reg, evs) =
      Inr (reg @ map (job_of g c) (filter has_time (message_entries c)), evs1)" by blast
  from Cons.prems have
    "\<forall>c \<in> set cs. \<forall>m \<in> set (message_entries c). has_time m \<longrightarrow> at_accepts (time_of m)" by simp
  from Cons.IH [OF this, of "reg @ map (job_of g c) (filter has_time (message_entries c))" evs1]
  obtain evs2 where e2: "schedule_targets at_accepts g cs
      (reg @ map (job_of g c) (filter has_time (message_entries c)), evs1) =
      Inr ((reg @ map (job_of g c) (filter has_time (message_entries c))) @ timed_jobs_of g cs, evs2)"
    by blast
  from e1 e2 show ?case
    by (simp add: timed_jobs_of_def message_entries_def [symmetric])
qed

lemma targets_of_empty_config:
  "personal_targets empty_config = []" "group_targets empty_config = []"
  by (simp_all add: personal_targets_def group_targets_def empty_config_def dict_get_def
      empty_contacts_def)

lemma schedule_messages_timed:
  assumes "times_accepted at_accepts cfg"
  shows "\<exists>evs'. schedule_messages at_accepts cfg (reg, evs) =
           Inr (reg @ timed_jobs_of False (personal_targets cfg) @
                timed_jobs_of True (group_targets cfg), evs')"
proof (cases "cfg = empty_config")
  case True
  then show ?thesis
    by (simp add: schedule_messages_def targets_of_empty_config timed_jobs_of_def)
next
  case False
  from assms have p: "\<forall>c \<in> set (personal_targets cfg). \<forall>m \<in> set (message_entries c).
      has_time m \<longrightarrow> at_accepts (time_of m)"
    and g: "\<forall>c \<in> set (group_targets cfg). \<forall>m \<in> set (message_entries c).
      has_time m \<longrightarrow> at_accepts (time_of m)"
    by (auto simp: times_accepted_def)
  from schedule_targets_timed [OF p, of False reg evs]
  obtain evs1 where e1: "schedule_targets at_accepts False (personal_targets cfg) (reg, evs) =
      Inr (reg @ timed_jobs_of False (personal_targets cfg), evs1)" by blast
  from schedule_targets_timed [OF g, of True "reg @ timed_jobs_of False (personal_targets cfg)" evs1]
  obtain evs2 where e2: "schedule_targets at_accepts True (group_targets cfg)
      (reg @ timed_jobs_of False (personal_targets cfg), evs1) =
      Inr ((reg @ timed_jobs_of False (personal_targets cfg)) @
           timed_jobs_of True (group_targets cfg), evs2)" by blast
  from False e1 e2 show ?thesis
    by (simp add: schedule_messages_def Let_def personal_targets_def [symmetric]
        group_targets_def [symmetric])
qed

lemma timed_jobs_of_all_timed:
  assumes "\<forall>c \<in> set cs. \<forall>m \<in> set (message_entries c). has_time m"
  shows "timed_jobs_of g cs = jobs_of g cs"
proof -
  have "filter has_time (message_entries c) = message_entries c" if "c \<in> set cs" for c
    using that assms by (simp add: filter_id_conv)
  then show ?thesis
    by (simp add: timed_jobs_of_def jobs_of_def cong: map_cong)
qed

lemma length_jobs_of:
  "length (jobs_of g cs) = sum_list (map (\<lambda>c. length (message_entries c)) cs)"
  by (induction cs) (simp_all add: jobs_of_def)

lemma timed_jobs_have_time:
  "e \<in> set (timed_jobs_of g cs) \<Longrightarrow> job_time (entry_job e) \<noteq> []"
  by (auto simp: timed_jobs_of_def job_of_def has_time_def)

text \<open>
  Claim C4. For every valid configuration (every message entry has a time that the
  scheduling library accepts), scheduling succeeds and appends to the registry exactly
  one job per message entry: the jobs of the individual targets in configuration order,
  then those of the group targets in configuration order. Their number is the number of
  message entries of the configuration.
\<close>

theorem one_job_per_message_entry:
  assumes "valid_config at_accepts cfg"
  shows "(\<exists>evs'. schedule_messages at_accepts cfg (reg, evs) =
            Inr (reg @ jobs_of False (personal_targets cfg) @ jobs_of True (group_targets cfg),
                 evs')) \<and>
         length (jobs_of False (personal_targets cfg) @ jobs_of True (group_targets cfg)) =
           message_count cfg"
proof
  from assms have acc: "times_accepted at_accepts cfg"
    by (auto simp: valid_config_def times_accepted_def)
  from assms have "timed_jobs_of False (personal_targets cfg) = jobs_of False (personal_targets cfg)"
    and "timed_jobs_of True (group_targets cfg) = jobs_of True (group_targets cfg)"
    by (auto simp: valid_config_def intro!: timed_jobs_of_all_timed)
  with schedule_messages_timed [OF acc, of reg evs]
  show "\<exists>evs'. schedule_messages at_accepts cfg (reg, evs) =
           Inr (reg @ jobs_of False (personal_targets cfg) @ jobs_of True (group_targets cfg),
                evs')" by simp
  show "length (jobs_of False (personal_targets cfg) @ jobs_of True (group_targets cfg)) =
           message_count cfg"
    by (simp add: length_jobs_of message_count_def)
qed

lemma sample_config_valid: "valid_config hhmm_format sample_config"
  by code_simp

lemma sample_config_jobs:
  "[] @ jobs_of False (personal_targets sample_config) @ jobs_of True (group_targets sample_config) =
     [job_of False (hd (personal_targets sample_config))
        (text_message ''Good morning! Have a great day!'' ''09:00''),
      job_of True (hd (group_targets sample_config))
        (text_message ''Good morning everyone!'' ''08:30''),
      job_of True (hd (group_targets sample_config))
        (image_message ''images/motivational_quote.jpg'' ''Daily motivation!'' ''18:00'')]"
  by code_simp

lemma sample_config_count: "message_count sample_config = 3"
  by code_simp

theorem one_job_per_message_entry_witness:
  "valid_config hhmm_format sample_config \<and>
   (\<exists>evs'. schedule_messages hhmm_format sample_config ([], []) =
      Inr ([job_of False (hd (personal_targets sample_config))
              (text_message ''Good morning! Have a great day!'' ''09:00''),
            job_of True (hd (group_targets sample_config))
              (text_message ''Good morning everyone!'' ''08:30''),
            job_of True (hd (group_targets sample_config))
              (image_message ''images/motivational_quote.jpg'' ''Daily motivation!'' ''18:00'')],
           evs')) \<and>
   message_count sample_config = 3"
  using one_job_per_message_entry [OF sample_config_valid, of "[]" "[]"] sample_config_valid
  unfolding sample_config_jobs sample_config_count by simp

text \<open>
  Claim C10. A message entry whose time is missing or empty is skipped: scheduling the
  messages of a target with such an entry among them is the same, in registry, log and
  error, as scheduling them without it. When the scheduling library accepts every time
  that is given, scheduling raises no error and appends to the registry exactly the jobs
  of the entries that have a time, individual targets first, each of them with a
  non-empty time.
\<close>

theorem untimed_entries_skipped:
  "(\<not> has_time m \<longrightarrow>
      schedule_entries at_accepts c g (ms1 @ m # ms2) st =
      schedule_entries at_accepts c g (ms1 @ ms2) st) \<and>
   (times_accepted at_accepts cfg \<longrightarrow>
      (\<exists>evs'. schedule_messages at_accepts cfg (reg, evs) =
         Inr (reg @ timed_jobs_of False (personal_targets cfg) @
              timed_jobs_of True (group_targets cfg), evs')) \<and>
      (\<forall>e \<in> set (timed_jobs_of False (personal_targets cfg) @
                  timed_jobs_of True (group_targets cfg)). job_time (entry_job e) \<noteq> []))"
proof (intro conjI impI)
  assume "\<not> has_time m"
  then have "filter has_time (ms1 @ m # ms2) = filter has_time (ms1 @ ms2)" by simp
  then show "schedule_entries at_accepts c g (ms1 @ m # ms2) st =
      schedule_entries at_accepts c g (ms1 @ ms2) st"
    using schedule_entries_filter [of at_accepts c g "ms1 @ m # ms2" st]
      schedule_entries_filter [of at_accepts c g "ms1 @ ms2" st] by simp
next
  assume "times_accepted at_accepts cfg"
  then show "\<exists>evs'. schedule_messages at_accepts cfg (reg, evs) =
         Inr (reg @ timed_jobs_of False (personal_targets cfg) @
              timed_jobs_of True (group_targets cfg), evs')"
    by (rule schedule_messages_timed)
next
  show "\<forall>e \<in> set (timed_jobs_of False (personal_targets cfg) @
                  timed_jobs_of True (group_targets cfg)). job_time (entry_job e) \<noteq> []"
    by (auto dest: timed_jobs_have_time)
qed

lemma untimed_message_has_no_time: "\<not> has_time untimed_message"
  by code_simp

lemma partly_timed_accepted: "times_accepted hhmm_format partly_timed"
  by code_simp

lemma partly_timed_jobs:
  "[] @ timed_jobs_of False (personal_targets partly_timed) @
     timed_jobs_of True (group_targets partly_timed) =
     [job_of False (hd (personal_targets partly_timed)) (text_message ''Hi'' ''09:00''),
      job_of False (hd (personal_targets partly_timed)) (text_message ''Bye'' ''17:30'')]"
  by code_simp

theorem untimed_entries_skipped_witness:
  "\<not> has_time untimed_message \<and>
   schedule_entries hhmm_format ann False
     ([text_message ''Hi'' ''09:00''] @ untimed_message # [text_message ''Bye'' ''17:30'']) ([], []) =
   schedule_entries hhmm_format ann False
     ([text_message ''Hi'' ''09:00''] @ [text_message ''Bye'' ''17:30'']) ([], []) \<and>
   times_accepted hhmm_format partly_timed \<and>
   (\<exists>evs'. schedule_messages hhmm_format partly_timed ([], []) =
      Inr ([job_of False (hd (personal_targets partly_timed)) (text_message ''Hi'' ''09:00''),
            job_of False (hd (personal_targets partly_timed)) (text_message ''Bye'' ''17:30'')],
           evs'))"
  using untimed_entries_skipped [of untimed_message hhmm_format ann False
      "[text_message ''Hi'' ''09:00'']" "[text_message ''Bye'' ''17:30'']" "([], [])"
      partly_timed "[]" "[]"]
    untimed_message_has_no_time partly_timed_accepted
  unfolding partly_timed_jobs by simp

section \<open>Properties of the tick\<close>

lemma entry_job_mark_fired: "entry_job (mark_fired now e) = entry_job e"
  by (simp add: mark_fired_def)

lemma not_due_after_mark:
  "ts_date n2 = ts_date n1 \<Longrightarrow> same_minute n1 n2 \<Longrightarrow> \<not> is_due n2 (mark_fired n1 e)"
  by (auto simp: is_due_def mark_fired_def same_minute_def)

lemma map_entry_job_tick: "map entry_job (snd (tick now registry)) = map entry_job registry"
  by (simp add: tick_def entry_job_mark_fired cong: map_cong)

lemma map_entry_job_run_ticks: "map entry_job (run_ticks clock registry) = map entry_job registry"
  by (induction clock arbitrary: registry) (simp_all add: map_entry_job_tick)

text \<open>No entry scheduled for time \<open>t\<close> has fired on date \<open>d\<close>.\<close>

lemma mark_fired_keeps_unfired:
  assumes "\<not> (ts_date now = d \<and> hhmm now = t)"
    and "job_time (entry_job e) = t \<longrightarrow> fired_on e \<noteq> Some d"
  shows "job_time (entry_job (mark_fired now e)) = t \<longrightarrow> fired_on (mark_fired now e) \<noteq> Some d"
  using assms by (auto simp: mark_fired_def is_due_def)

lemma run_ticks_keeps_unfired:
  assumes "\<forall>now \<in> set clock. \<not> (ts_date now = d \<and> hhmm now = t)"
    and "\<forall>e \<in> set registry. job_time (entry_job e) = t \<longrightarrow> fired_on e \<noteq> Some d"
  shows "\<forall>e \<in> set (run_ticks clock registry). job_time (entry_job e) = t \<longrightarrow> fired_on e \<noteq> Some d"
  using assms
proof (induction clock arbitrary: registry)
  case Nil
  then show ?case by simp
next
  case (Cons now clock)
  from Cons.prems have now: "\<not> (ts_date now = d \<and> hhmm now = t)" by simp
  have "\<forall>e \<in> set (snd (tick now registry)).
          job_time (entry_job e) = t \<longrightarrow> fired_on e \<noteq> Some d"
    using Cons.prems(2) mark_fired_keeps_unfired [OF now] by (auto simp: tick_def)
  with Cons.IH [of "snd (tick now registry)"] Cons.prems(1) show ?case by simp
qed

lemma unfired_after_tick:
  "\<forall>e \<in> set (snd (tick now registry)).
     job_time (entry_job e) = hhmm now \<longrightarrow> fired_on e \<noteq> Some (Suc (ts_date now))"
  by (auto simp: tick_def mark_fired_def is_due_def)

lemma due_of_unfired:
  assumes "\<forall>e \<in> set registry. job_time (entry_job e) = hhmm now \<longrightarrow> fired_on e \<noteq> Some (ts_date now)"
  shows "fst (tick now registry) = filter (\<lambda>j. job_time j = hhmm now) (map entry_job registry)"
proof -
  have "filter (is_due now) registry = filter (\<lambda>e. job_time (entry_job e) = hhmm now) registry"
    using assms by (intro filter_cong) (auto simp: is_due_def)
  then show ?thesis
    by (simp add: tick_def filter_map comp_def)
qed

lemma fired_subseq:
  "subseq (fst (tick now registry)) (filter (\<lambda>j. job_time j = hhmm now) (map entry_job registry))"
proof -
  have eq: "filter (is_due now) registry =
        filter (\<lambda>e. fired_on e \<noteq> Some (ts_date now))
          (filter (\<lambda>e. job_time (entry_job e) = hhmm now) registry)"
    by (auto simp: is_due_def intro: filter_cong)
  have "subseq (filter (\<lambda>e. fired_on e \<noteq> Some (ts_date now))
                  (filter (\<lambda>e. job_time (entry_job e) = hhmm now) registry))
               (filter (\<lambda>e. job_time (entry_job e) = hhmm now) registry)"
    by (rule subseq_filter_left)
  then have "subseq (filter (is_due now) registry)
               (filter (\<lambda>e. job_time (entry_job e) = hhmm now) registry)"
    unfolding eq .
  then have "subseq (map entry_job (filter (is_due now) registry))
               (map entry_job (filter (\<lambda>e. job_time (entry_job e) = hhmm now) registry))"
    by (rule subseq_map)
  then show ?thesis
    by (simp add: tick_def filter_map comp_def)
qed

lemma registry_of_loop:
  "fst (scheduler_loop cfg kit fs clock registry) = run_ticks clock registry"
  by (induction clock arbitrary: registry) (simp_all add: split_beta Let_def)

text \<open>
  Claim C1. Two evaluations of the scheduler in the same minute of the same date: the
  second fires no job at all, so no job fires twice. A job fired at its time on day \<open>D\<close>
  fires again at the same time on day \<open>D + 1\<close>, whatever evaluations take place in
  between, as long as none of them is already in that minute of day \<open>D + 1\<close>: the jobs
  fired on day \<open>D\<close> are, in order, among those fired on day \<open>D + 1\<close>.
\<close>

theorem tick_once_per_day:
  "(ts_date n2 = ts_date n1 \<and> same_minute n1 n2 \<longrightarrow>
      fst (tick n2 (snd (tick n1 registry))) = []) \<and>
   (ts_date n2 = Suc (ts_date n1) \<and> same_minute n1 n2 \<and>
    (\<forall>now \<in> set between. \<not> (ts_date now = ts_date n2 \<and> same_minute now n2)) \<longrightarrow>
      subseq (fst (tick n1 registry))
             (fst (tick n2 (run_ticks between (snd (tick n1 registry))))))"
proof (intro conjI impI)
  assume "ts_date n2 = ts_date n1 \<and> same_minute n1 n2"
  then have "\<not> is_due n2 (mark_fired n1 e)" for e
    by (simp add: not_due_after_mark)
  then show "fst (tick n2 (snd (tick n1 registry))) = []"
    by (simp add: tick_def)
next
  assume a: "ts_date n2 = Suc (ts_date n1) \<and> same_minute n1 n2 \<and>
    (\<forall>now \<in> set between. \<not> (ts_date now = ts_date n2 \<and> same_minute now n2))"
  then have t: "hhmm n2 = hhmm n1" and d: "ts_date n2 = Suc (ts_date n1)"
    by (simp_all add: same_minute_def)
  let ?r = "run_ticks between (snd (tick n1 registry))"
  from a have "\<forall>now \<in> set between. \<not> (ts_date now = ts_date n2 \<and> hhmm now = hhmm n2)"
    by (simp add: same_minute_def)
  moreover have "\<forall>e \<in> set (snd (tick n1 registry)).
      job_time (entry_job e) = hhmm n2 \<longrightarrow> fired_on e \<noteq> Some (ts_date n2)"
    using unfired_after_tick [of n1 registry] by (simp add: t d)
  ultimately have "\<forall>e \<in> set ?r. job_time (entry_job e) = hhmm n2 \<longrightarrow> fired_on e \<noteq> Some (ts_date n2)"
    by (rule run_ticks_keeps_unfired)
  then have "fst (tick n2 ?r) = filter (\<lambda>j. job_time j = hhmm n2) (map entry_job ?r)"
    by (rule due_of_unfired)
  also have "\<dots> = filter (\<lambda>j. job_time j = hhmm n1) (map entry_job registry)"
    by (simp add: t map_entry_job_run_ticks map_entry_job_tick)
  finally show "subseq (fst (tick n1 registry)) (fst (tick n2 ?r))"
    by (simp add: fired_subseq)
qed

lemma nine_same_minute: "same_minute (at_nine d s) (at_nine d' s')"
  by (simp add: same_minute_def hhmm_def at_nine_def)

lemma noon_not_nine: "\<not> same_minute (at_noon d) (at_nine d' s)"
  by (simp add: same_minute_def hhmm_def at_nine_def at_noon_def two_digits_def)

lemma ann_fires_at_nine:
  "fst (tick (at_nine 7 0) ann_registry) = [entry_job (job_of False ann (text_message ''Hi'' ''09:00''))]"
  by code_simp

theorem tick_once_per_day_witness:
  "fst (tick (at_nine 7 0) ann_registry) =
     [entry_job (job_of False ann (text_message ''Hi'' ''09:00''))] \<and>
   fst (tick (at_nine 7 30) (snd (tick (at_nine 7 0) ann_registry))) = [] \<and>
   subseq [entry_job (job_of False ann (text_message ''Hi'' ''09:00''))]
     (fst (tick (at_nine 8 0) (run_ticks [at_nine 7 30, at_noon 7, at_noon 8]
        (snd (tick (at_nine 7 0) ann_registry)))))"
proof -
  have d: "ts_date (at_nine 7 30) = ts_date (at_nine 7 0)"
    "ts_date (at_nine 8 0) = Suc (ts_date (at_nine 7 0))"
    by (simp_all add: at_nine_def)
  have b: "\<forall>now \<in> set [at_nine 7 30, at_noon 7, at_noon 8].
      \<not> (ts_date now = ts_date (at_nine 8 0) \<and> same_minute now (at_nine 8 0))"
    by (simp add: noon_not_nine) (simp add: at_nine_def)
  show ?thesis
    using tick_once_per_day [of "at_nine 7 30" "at_nine 7 0" ann_registry "[]"]
      tick_once_per_day [of "at_nine 8 0" "at_nine 7 0" ann_registry
        "[at_nine 7 30, at_noon 7, at_noon 8]"]
      d b nine_same_minute ann_fires_at_nine
    by simp
qed

section \<open>A run without a configuration file\<close>

text \<open>
  Claim C8. When \<^verbatim>\<open>config.yaml\<close> does not exist, a run ends without an error: the sample
  configuration is written to \<^verbatim>\<open>config.yaml\<close>, the configuration in memory is the empty
  dictionary, the scheduler returns before it schedules anything, so the registry stays
  empty, and the events are the six listed, none of them a call of the messaging library.
\<close>

theorem missing_config_schedules_nothing:
  assumes "fs ''config.yaml'' = None"
  shows "main_run at_accepts kit clock fs =
           Inr (empty_config, fs(''config.yaml'' \<mapsto> Document sample_config), [],
                [Log ERROR ''Configuration file config.yaml not found'',
                 Log INFO ''Sample configuration created at config.yaml'',
                 Print ''Please edit config.yaml with your contacts and messages'',
                 Log INFO ''WhatsApp Bot initialized successfully'',
                 Log INFO ''WhatsApp Bot scheduler started'',
                 Log ERROR ''No configuration found. Exiting.''])"
  using assms
  by (simp add: main_run_def bot_init_def load_config_def create_sample_config_def
      run_scheduler_def)

theorem missing_config_schedules_nothing_witness:
  "no_files ''config.yaml'' = None \<and>
   (case main_run hhmm_format kit_ok [at_nine 7 0] no_files of
      Inl e \<Rightarrow> False
    | Inr (cfg, fs', registry, evs) \<Rightarrow>
        cfg = empty_config \<and> registry = [] \<and> calls evs = [] \<and>
        fs' ''config.yaml'' = Some (Document sample_config))"
proof -
  have h: "no_files ''config.yaml'' = None"
    by (simp add: no_files_def)
  show ?thesis
    using h missing_config_schedules_nothing [where fs = no_files and at_accepts = hhmm_format
        and kit = kit_ok and clock = "[at_nine 7 0]", OF h]
    by simp
qed

end
